theory Spec2Isabelle
  imports Main
begin

section \<open>Values of the host language\<close>

text \<open>
  A TypeScript value of type \<open>T | undefined\<close> (an optional prop, a hook result that may be
  missing) or \<open>T | null\<close> is an \<open>option\<close>: \<open>None\<close> is \<open>undefined\<close>/\<open>null\<close>.
  A \<open>boolean | undefined\<close> is truthy exactly when it is \<open>true\<close>.
\<close>

definition truthy :: "bool option \<Rightarrow> bool" where
  "truthy v = (v = Some True)"

text \<open>
  \<open>a && b\<close> with \<open>a : boolean | undefined\<close> and \<open>b : boolean\<close>: the value is \<open>a\<close> itself
  when \<open>a\<close> is falsy (\<open>undefined\<close> or \<open>false\<close>), and \<open>b\<close> otherwise.
\<close>

definition js_and :: "bool option \<Rightarrow> bool \<Rightarrow> bool option" where
  "js_and a b = (case a of None \<Rightarrow> None | Some False \<Rightarrow> Some False | Some True \<Rightarrow> Some b)"

text \<open>\<open>a ?? b\<close>: the left operand unless it is \<open>null\<close>/\<open>undefined\<close>.\<close>

definition nullish :: "'a option \<Rightarrow> 'a \<Rightarrow> 'a" where
  "nullish a b = (case a of None \<Rightarrow> b | Some v \<Rightarrow> v)"

text \<open>A destructured prop with a default, \<open>{ p = d }\<close>: the default replaces \<open>undefined\<close>.\<close>

definition prop_default :: "'a option \<Rightarrow> 'a \<Rightarrow> 'a" where
  "prop_default p d = (case p of None \<Rightarrow> d | Some v \<Rightarrow> v)"

text \<open>The \<open>Error\<close> objects of the host language, by their message.\<close>

datatype Error = Error (message: string)


section \<open>The schema types (\<open>RenderFormSchema\<close>, \<open>ContractSchema\<close>)\<close>

text \<open>
  The types come from the external package \<open>@openzeppelin/ui-types\<close>; the records below have
  the fields that the object literals of \<open>GeneratedForm\<close> give them. Field names that several
  object shapes share (\<open>id\<close>, \<open>name\<close>, \<open>type\<close>, \<open>validation\<close>, \<open>displayName\<close>, \<open>text\<close>)
  carry the shape as a prefix; \<open>fields\<close> and \<open>functions\<close> are \<open>formFields\<close> and
  \<open>contractFunctions\<close>. An empty object literal \<open>{}\<close> is an empty association list.
\<close>

record LayoutConfig =
  columns :: nat
  spacing :: string
  labelPosition :: string

record ValidationConfig =
  mode :: string
  showErrors :: string

record FieldValidation =
  required :: bool

record FormField =
  fieldId :: string
  fieldName :: string
  label :: string
  fieldType :: string
  placeholder :: string
  helperText :: string
  defaultValue :: string
  fieldValidation :: FieldValidation
  width :: string
  transforms :: "(string \<times> string) list"
  originalParameterType :: string
  isHardcoded :: "bool option"
  hardcodedValue :: "string option"

record SubmitButton =
  buttonText :: string
  loadingText :: string
  variant :: string

record RenderFormSchema =
  layout :: LayoutConfig
  validation :: ValidationConfig
  theme :: "(string \<times> string) list"
  functionId :: string
  title :: string
  description :: string
  contractAddress :: string
  formId :: string
  formFields :: "FormField list"
  submitButton :: SubmitButton
  defaultValues :: "(string \<times> string) list"

record FunctionParameter =
  paramName :: string
  paramType :: string
  paramDisplayName :: string

record ContractFunction =
  fnId :: string
  fnName :: string
  displayName :: string
  inputs :: "FunctionParameter list"
  outputs :: "FunctionParameter list"
  fnType :: string
  stateMutability :: string
  modifiesState :: bool

record ContractSchema =
  ecosystem :: string
  contractName :: string
  address :: string
  contractFunctions :: "ContractFunction list"


section \<open>Module constants of \<open>GeneratedForm\<close>\<close>

definition CONTRACT_ADDRESS :: string where
  "CONTRACT_ADDRESS = ''0xA18A39F7f5Fa1A6d4aD6B67f6d5578D4002E2f98''"

definition sharedLayout :: LayoutConfig where
  "sharedLayout = \<lparr> columns = 1, spacing = ''normal'', labelPosition = ''top'' \<rparr>"

definition sharedValidation :: ValidationConfig where
  "sharedValidation = \<lparr> mode = ''onChange'', showErrors = ''inline'' \<rparr>"


section \<open>The memoised schema factories\<close>

text \<open>
  Each schema is built by the factory function handed to \<open>useMemo\<close>. The factories take no
  argument and mention only the module constants above, so each is a function from \<open>unit\<close>.
\<close>

definition approveFormSchema_factory :: "unit \<Rightarrow> RenderFormSchema" where
  "approveFormSchema_factory u =
    \<lparr> layout = sharedLayout,
      validation = sharedValidation,
      theme = [],
      functionId = ''approve_address_uint256'',
      title = ''Approve Form'',
      description = ''Form for interacting with the Approve function.'',
      contractAddress = CONTRACT_ADDRESS,
      formId = ''form-approve_address_uint256'',
      formFields =
        [ \<lparr> fieldId = ''field-kzn61zp'',
            fieldName = ''spender'',
            label = ''Spender'',
            fieldType = ''blockchain-address'',
            placeholder = ''0x2472FCd582b6f48D4977b6b1AD44Ad7a0B444827'',
            helperText = '''',
            defaultValue = '''',
            fieldValidation = \<lparr> required = True \<rparr>,
            width = ''full'',
            transforms = [],
            originalParameterType = ''address'',
            isHardcoded = Some True,
            hardcodedValue = Some ''0x2472FCd582b6f48D4977b6b1AD44Ad7a0B444827'' \<rparr>,
          \<lparr> fieldId = ''field-cgug6zo'',
            fieldName = ''value'',
            label = ''Value'',
            fieldType = ''bigint'',
            placeholder = ''Enter Value'',
            helperText = '''',
            defaultValue = '''',
            fieldValidation = \<lparr> required = True \<rparr>,
            width = ''full'',
            transforms = [],
            originalParameterType = ''uint256'',
            isHardcoded = None,
            hardcodedValue = None \<rparr> ],
      submitButton =
        \<lparr> buttonText = ''Execute Approve Form'',
          loadingText = ''Processing...'',
          variant = ''primary'' \<rparr>,
      defaultValues =
        [ (''spender'', ''0x2472FCd582b6f48D4977b6b1AD44Ad7a0B444827''),
          (''value'', '''') ] \<rparr>"

definition mintFormSchema_factory :: "unit \<Rightarrow> RenderFormSchema" where
  "mintFormSchema_factory u =
    \<lparr> layout = sharedLayout,
      validation = sharedValidation,
      theme = [],
      functionId = ''mint_'',
      title = ''Mint'',
      description = ''Mint 100000 tokens to the caller.'',
      contractAddress = CONTRACT_ADDRESS,
      formId = ''form-mint'',
      formFields = [],
      submitButton =
        \<lparr> buttonText = ''Execute Mint'',
          loadingText = ''Processing...'',
          variant = ''primary'' \<rparr>,
      defaultValues = [] \<rparr>"

definition mintAndSendFormSchema_factory :: "unit \<Rightarrow> RenderFormSchema" where
  "mintAndSendFormSchema_factory u =
    \<lparr> layout = sharedLayout,
      validation = sharedValidation,
      theme = [],
      functionId = ''mintAndSend_address'',
      title = ''Mint And Send'',
      description = ''Mint 100000 tokens and send them to the specified address.'',
      contractAddress = CONTRACT_ADDRESS,
      formId = ''form-mintAndSend'',
      formFields =
        [ \<lparr> fieldId = ''field-mintAndSend-to'',
            fieldName = ''to'',
            label = ''Recipient address'',
            fieldType = ''blockchain-address'',
            placeholder = ''0x...'',
            helperText = '''',
            defaultValue = '''',
            fieldValidation = \<lparr> required = True \<rparr>,
            width = ''full'',
            transforms = [],
            originalParameterType = ''address'',
            isHardcoded = None,
            hardcodedValue = None \<rparr> ],
      submitButton =
        \<lparr> buttonText = ''Execute Mint And Send'',
          loadingText = ''Processing...'',
          variant = ''primary'' \<rparr>,
      defaultValues = [ (''to'', '''') ] \<rparr>"

definition sendFormSchema_factory :: "unit \<Rightarrow> RenderFormSchema" where
  "sendFormSchema_factory u =
    \<lparr> layout = sharedLayout,
      validation = sharedValidation,
      theme = [],
      functionId = ''transfer_address_uint256'',
      title = ''Send'',
      description = ''Transfer a specified amount of tokens to an address.'',
      contractAddress = CONTRACT_ADDRESS,
      formId = ''form-send'',
      formFields =
        [ \<lparr> fieldId = ''field-send-to'',
            fieldName = ''to'',
            label = ''Recipient address'',
            fieldType = ''blockchain-address'',
            placeholder = ''0x...'',
            helperText = '''',
            defaultValue = '''',
            fieldValidation = \<lparr> required = True \<rparr>,
            width = ''full'',
            transforms = [],
            originalParameterType = ''address'',
            isHardcoded = None,
            hardcodedValue = None \<rparr>,
          \<lparr> fieldId = ''field-send-value'',
            fieldName = ''value'',
            label = ''Amount'',
            fieldType = ''bigint'',
            placeholder = ''Enter amount'',
            helperText = '''',
            defaultValue = '''',
            fieldValidation = \<lparr> required = True \<rparr>,
            width = ''full'',
            transforms = [],
            originalParameterType = ''uint256'',
            isHardcoded = None,
            hardcodedValue = None \<rparr> ],
      submitButton =
        \<lparr> buttonText = ''Execute Send'',
          loadingText = ''Processing...'',
          variant = ''primary'' \<rparr>,
      defaultValues = [ (''to'', ''''), (''value'', '''') ] \<rparr>"

definition contractSchema_factory :: "unit \<Rightarrow> ContractSchema" where
  "contractSchema_factory u =
    \<lparr> ecosystem = ''evm'',
      contractName = ''ContractFromABI'',
      address = CONTRACT_ADDRESS,
      contractFunctions =
        [ \<lparr> fnId = ''DOMAIN_SEPARATOR_'',
            fnName = ''DOMAIN_SEPARATOR'',
            displayName = ''D O M A I N_ S E P A R A T O R'',
            inputs = [],
            outputs =
              [ \<lparr> paramName = '''', paramType = ''bytes32'', paramDisplayName = ''Parameter (bytes32)'' \<rparr> ],
            fnType = ''function'',
            stateMutability = ''view'',
            modifiesState = False \<rparr>,
          \<lparr> fnId = ''allowance_address_address'',
            fnName = ''allowance'',
            displayName = ''Allowance'',
            inputs =
              [ \<lparr> paramName = ''owner'', paramType = ''address'', paramDisplayName = ''Owner'' \<rparr>,
                \<lparr> paramName = ''spender'', paramType = ''address'', paramDisplayName = ''Spender'' \<rparr> ],
            outputs =
              [ \<lparr> paramName = '''', paramType = ''uint256'', paramDisplayName = ''Parameter (uint256)'' \<rparr> ],
            fnType = ''function'',
            stateMutability = ''view'',
            modifiesState = False \<rparr>,
          \<lparr> fnId = ''approve_address_uint256'',
            fnName = ''approve'',
            displayName = ''Approve'',
            inputs =
              [ \<lparr> paramName = ''spender'', paramType = ''address'', paramDisplayName = ''Spender'' \<rparr>,
                \<lparr> paramName = ''value'', paramType = ''uint256'', paramDisplayName = ''Value'' \<rparr> ],
            outputs =
              [ \<lparr> paramName = '''', paramType = ''bool'', paramDisplayName = ''Parameter (bool)'' \<rparr> ],
            fnType = ''function'',
            stateMutability = ''nonpayable'',
            modifiesState = True \<rparr>,
          \<lparr> fnId = ''balanceOf_address'',
            fnName = ''balanceOf'',
            displayName = ''Balance Of'',
            inputs =
              [ \<lparr> paramName = ''account'', paramType = ''address'', paramDisplayName = ''Account'' \<rparr> ],
            outputs =
              [ \<lparr> paramName = '''', paramType = ''uint256'', paramDisplayName = ''Parameter (uint256)'' \<rparr> ],
            fnType = ''function'',
            stateMutability = ''view'',
            modifiesState = False \<rparr>,
          \<lparr> fnId = ''decimals_'',
            fnName = ''decimals'',
            displayName = ''Decimals'',
            inputs = [],
            outputs =
              [ \<lparr> paramName = '''', paramType = ''uint8'', paramDisplayName = ''Parameter (uint8)'' \<rparr> ],
            fnType = ''function'',
            stateMutability = ''view'',
            modifiesState = False \<rparr>,
          \<lparr> fnId = ''eip712Domain_'',
            fnName = ''eip712Domain'',
            displayName = ''Eip712 Domain'',
            inputs = [],
            outputs =
              [ \<lparr> paramName = ''fields'', paramType = ''bytes1'', paramDisplayName = ''Fields'' \<rparr>,
                \<lparr> paramName = ''name'', paramType = ''string'', paramDisplayName = ''Name'' \<rparr>,
                \<lparr> paramName = ''version'', paramType = ''string'', paramDisplayName = ''Version'' \<rparr>,
                \<lparr> paramName = ''chainId'', paramType = ''uint256'', paramDisplayName = ''Chain Id'' \<rparr>,
                \<lparr> paramName = ''verifyingContract'', paramType = ''address'', paramDisplayName = ''Verifying Contract'' \<rparr>,
                \<lparr> paramName = ''salt'', paramType = ''bytes32'', paramDisplayName = ''Salt'' \<rparr>,
                \<lparr> paramName = ''extensions'', paramType = ''uint256[]'', paramDisplayName = ''Extensions'' \<rparr> ],
            fnType = ''function'',
            stateMutability = ''view'',
            modifiesState = False \<rparr>,
          \<lparr> fnId = ''mint_'',
            fnName = ''mint'',
            displayName = ''Mint'',
            inputs = [],
            outputs = [],
            fnType = ''function'',
            stateMutability = ''nonpayable'',
            modifiesState = True \<rparr>,
          \<lparr> fnId = ''mintAndSend_address'',
            fnName = ''mintAndSend'',
            displayName = ''Mint And Send'',
            inputs =
              [ \<lparr> paramName = ''to'', paramType = ''address'', paramDisplayName = ''To'' \<rparr> ],
            outputs = [],
            fnType = ''function'',
            stateMutability = ''nonpayable'',
            modifiesState = True \<rparr>,
          \<lparr> fnId = ''name_'',
            fnName = ''name'',
            displayName = ''Name'',
            inputs = [],
            outputs =
              [ \<lparr> paramName = '''', paramType = ''string'', paramDisplayName = ''Parameter (string)'' \<rparr> ],
            fnType = ''function'',
            stateMutability = ''view'',
            modifiesState = False \<rparr>,
          \<lparr> fnId = ''nonces_address'',
            fnName = ''nonces'',
            displayName = ''Nonces'',
            inputs =
              [ \<lparr> paramName = ''owner'', paramType = ''address'', paramDisplayName = ''Owner'' \<rparr> ],
            outputs =
              [ \<lparr> paramName = '''', paramType = ''uint256'', paramDisplayName = ''Parameter (uint256)'' \<rparr> ],
            fnType = ''function'',
            stateMutability = ''view'',
            modifiesState = False \<rparr>,
          \<lparr> fnId = ''permit_address_address_uint256_uint256_uint8_bytes32_bytes32'',
            fnName = ''permit'',
            displayName = ''Permit'',
            inputs =
              [ \<lparr> paramName = ''owner'', paramType = ''address'', paramDisplayName = ''Owner'' \<rparr>,
                \<lparr> paramName = ''spender'', paramType = ''address'', paramDisplayName = ''Spender'' \<rparr>,
                \<lparr> paramName = ''value'', paramType = ''uint256'', paramDisplayName = ''Value'' \<rparr>,
                \<lparr> paramName = ''deadline'', paramType = ''uint256'', paramDisplayName = ''Deadline'' \<rparr>,
                \<lparr> paramName = ''v'', paramType = ''uint8'', paramDisplayName = ''V'' \<rparr>,
                \<lparr> paramName = ''r'', paramType = ''bytes32'', paramDisplayName = ''R'' \<rparr>,
                \<lparr> paramName = ''s'', paramType = ''bytes32'', paramDisplayName = ''S'' \<rparr> ],
            outputs = [],
            fnType = ''function'',
            stateMutability = ''nonpayable'',
            modifiesState = True \<rparr>,
          \<lparr> fnId = ''symbol_'',
            fnName = ''symbol'',
            displayName = ''Symbol'',
            inputs = [],
            outputs =
              [ \<lparr> paramName = '''', paramType = ''string'', paramDisplayName = ''Parameter (string)'' \<rparr> ],
            fnType = ''function'',
            stateMutability = ''view'',
            modifiesState = False \<rparr>,
          \<lparr> fnId = ''totalSupply_'',
            fnName = ''totalSupply'',
            displayName = ''Total Supply'',
            inputs = [],
            outputs =
              [ \<lparr> paramName = '''', paramType = ''uint256'', paramDisplayName = ''Parameter (uint256)'' \<rparr> ],
            fnType = ''function'',
            stateMutability = ''view'',
            modifiesState = False \<rparr>,
          \<lparr> fnId = ''transfer_address_uint256'',
            fnName = ''transfer'',
            displayName = ''Transfer'',
            inputs =
              [ \<lparr> paramName = ''to'', paramType = ''address'', paramDisplayName = ''To'' \<rparr>,
                \<lparr> paramName = ''value'', paramType = ''uint256'', paramDisplayName = ''Value'' \<rparr> ],
            outputs =
              [ \<lparr> paramName = '''', paramType = ''bool'', paramDisplayName = ''Parameter (bool)'' \<rparr> ],
            fnType = ''function'',
            stateMutability = ''nonpayable'',
            modifiesState = True \<rparr>,
          \<lparr> fnId = ''transferFrom_address_address_uint256'',
            fnName = ''transferFrom'',
            displayName = ''Transfer From'',
            inputs =
              [ \<lparr> paramName = ''from'', paramType = ''address'', paramDisplayName = ''From'' \<rparr>,
                \<lparr> paramName = ''to'', paramType = ''address'', paramDisplayName = ''To'' \<rparr>,
                \<lparr> paramName = ''value'', paramType = ''uint256'', paramDisplayName = ''Value'' \<rparr> ],
            outputs =
              [ \<lparr> paramName = '''', paramType = ''bool'', paramDisplayName = ''Parameter (bool)'' \<rparr> ],
            fnType = ''function'',
            stateMutability = ''nonpayable'',
            modifiesState = True \<rparr> ] \<rparr>"


section \<open>The external collaborators\<close>

text \<open>
  A \<open>ContractAdapter\<close> is an object of the external adapter library; \<open>GeneratedForm\<close> reads
  only its \<open>networkConfig\<close>, whose type \<open>'n\<close> stays abstract. Event handlers are named by
  what they are: \<open>toggleWidget\<close> of \<open>GeneratedForm\<close> and \<open>requestSwitchToBaseSepolia\<close> of
  \<open>App\<close>, the only two functions the code passes as callbacks.
\<close>

record 'n ContractAdapter =
  networkConfig :: "'n option"

datatype callback = ToggleWidget | RequestSwitchToBaseSepolia

text \<open>
  The elements \<open>GeneratedForm\<close> mounts, each with the props the JSX gives it. The layout
  \<open>div\<close>s and \<open>Card\<close>s around them carry no data and are left out; the elements are listed
  in document order.
\<close>

datatype Button = Button (onClick: callback) (disabled: bool) (buttonLabel: string)

datatype 'n element =
    ContractActionBar 'n string callback bool
      \<comment> \<open>\<open>networkConfig\<close>, \<open>contractAddress\<close>, \<open>onToggleContractState\<close>, \<open>isWidgetExpanded\<close>\<close>
  | Alert "Button option"
      \<comment> \<open>the "Wrong network" banner, with its switch button when a callback was given\<close>
  | ContractStateWidget ContractSchema string "'n ContractAdapter" bool callback "Error option"
      \<comment> \<open>\<open>contractSchema\<close>, \<open>contractAddress\<close>, \<open>adapter\<close>, \<open>isVisible\<close>, \<open>onToggle\<close>, \<open>error\<close>\<close>
  | TransactionForm RenderFormSchema ContractSchema "'n ContractAdapter" "bool option"
      \<comment> \<open>\<open>schema\<close>, \<open>contractSchema\<close>, \<open>adapter\<close>, \<open>isWalletConnected\<close>\<close>


section \<open>\<open>GeneratedForm\<close>\<close>

record 'n GeneratedFormProps =
  adapter :: "'n ContractAdapter"
  isWalletConnected :: "bool option"
  isCorrectChain :: "bool option"
  onSwitchToBaseSepolia :: "callback option"
  isSwitchingChain :: "bool option"

text \<open>
  The hook state of one mounted \<open>GeneratedForm\<close>: the two \<open>useState\<close> cells and the five
  \<open>useMemo\<close> cells (\<open>None\<close> until the first render has filled them).
\<close>

record GeneratedFormState =
  isWidgetVisible :: bool
  loadError :: "Error option"
  approveFormSchema_memo :: "RenderFormSchema option"
  mintFormSchema_memo :: "RenderFormSchema option"
  mintAndSendFormSchema_memo :: "RenderFormSchema option"
  sendFormSchema_memo :: "RenderFormSchema option"
  contractSchema_memo :: "ContractSchema option"

text \<open>\<open>useState(false)\<close>, \<open>useState<Error | null>(null)\<close> and empty memo cells.\<close>

definition GeneratedForm_mount :: GeneratedFormState where
  "GeneratedForm_mount =
    \<lparr> isWidgetVisible = False,
      loadError = None,
      approveFormSchema_memo = None,
      mintFormSchema_memo = None,
      mintAndSendFormSchema_memo = None,
      sendFormSchema_memo = None,
      contractSchema_memo = None \<rparr>"

text \<open>
  \<open>useMemo(factory, [])\<close>: with the empty dependency list the factory runs when the cell is
  empty and the cached value is returned ever after. The result is the value and the cell.
\<close>

definition useMemo :: "(unit \<Rightarrow> 'a) \<Rightarrow> 'a option \<Rightarrow> 'a \<times> 'a option" where
  "useMemo factory cell =
    (case cell of
       None \<Rightarrow> (let v = factory () in (v, Some v))
     | Some v \<Rightarrow> (v, Some v))"

text \<open>\<open>const showWrongNetwork = isWalletConnected && !isCorrectChain\<close>, after the prop default.\<close>

definition showWrongNetwork :: "'n GeneratedFormProps \<Rightarrow> bool option" where
  "showWrongNetwork props =
    js_and (isWalletConnected props) (\<not> prop_default (isCorrectChain props) True)"

text \<open>\<open>setIsWidgetVisible((prev) => !prev)\<close>\<close>

definition toggleWidget :: "GeneratedFormState \<Rightarrow> GeneratedFormState" where
  "toggleWidget st = st\<lparr> isWidgetVisible := \<not> isWidgetVisible st \<rparr>"

text \<open>
  One render: the mounted elements and the hook state after it. The button label
  \<open>Switching\<close> ends in the character U+2026, written here as its three UTF-8 bytes.
\<close>

definition GeneratedForm ::
  "'n GeneratedFormProps \<Rightarrow> GeneratedFormState \<Rightarrow> 'n element list \<times> GeneratedFormState" where
  "GeneratedForm props st =
    (let switching = prop_default (isSwitchingChain props) False;
         (approveFormSchema, c1) = useMemo approveFormSchema_factory (approveFormSchema_memo st);
         (mintFormSchema, c2) = useMemo mintFormSchema_factory (mintFormSchema_memo st);
         (mintAndSendFormSchema, c3) =
            useMemo mintAndSendFormSchema_factory (mintAndSendFormSchema_memo st);
         (sendFormSchema, c4) = useMemo sendFormSchema_factory (sendFormSchema_memo st);
         (contractSchema, c5) = useMemo contractSchema_factory (contractSchema_memo st);
         contractAddr = CONTRACT_ADDRESS;
         schemaToUse = contractSchema
     in
      ( (case networkConfig (adapter props) of
           None \<Rightarrow> []
         | Some nc \<Rightarrow> [ContractActionBar nc contractAddr ToggleWidget (isWidgetVisible st)])
        @ (if truthy (showWrongNetwork props)
           then [Alert
                  (case onSwitchToBaseSepolia props of
                     None \<Rightarrow> None
                   | Some cb \<Rightarrow>
                       Some (Button cb switching
                               (if switching
                                then ''Switching'' @ [CHR 0xE2, CHR 0x80, CHR 0xA6]
                                else ''Switch to Base Sepolia'')))]
           else [])
        @ (if contractAddr \<noteq> ''''
           then [ContractStateWidget schemaToUse contractAddr (adapter props)
                   (isWidgetVisible st) ToggleWidget (loadError st)]
           else [])
        @ (if \<not> truthy (showWrongNetwork props)
           then [TransactionForm approveFormSchema contractSchema (adapter props)
                   (isWalletConnected props),
                 TransactionForm mintFormSchema contractSchema (adapter props)
                   (isWalletConnected props),
                 TransactionForm mintAndSendFormSchema contractSchema (adapter props)
                   (isWalletConnected props),
                 TransactionForm sendFormSchema contractSchema (adapter props)
                   (isWalletConnected props)]
           else []),
        st\<lparr> approveFormSchema_memo := c1,
            mintFormSchema_memo := c2,
            mintAndSendFormSchema_memo := c3,
            sendFormSchema_memo := c4,
            contractSchema_memo := c5 \<rparr> ))"

text \<open>
  What can happen to a mounted \<open>GeneratedForm\<close>: it is rendered again with some props, or one
  of the callbacks it handed out is invoked. \<open>toggleWidget\<close> is the only one that touches its
  state; \<open>_setLoadError\<close> is called nowhere (its one use is inside a comment).
\<close>

datatype 'n GeneratedForm_event = Render "'n GeneratedFormProps" | Invoke callback

fun GeneratedForm_step :: "GeneratedFormState \<Rightarrow> 'n GeneratedForm_event \<Rightarrow> GeneratedFormState" where
  "GeneratedForm_step st (Render props) = snd (GeneratedForm props st)"
| "GeneratedForm_step st (Invoke ToggleWidget) = toggleWidget st"
| "GeneratedForm_step st (Invoke RequestSwitchToBaseSepolia) = st"

definition GeneratedForm_run :: "'n GeneratedForm_event list \<Rightarrow> GeneratedFormState" where
  "GeneratedForm_run evs = foldl GeneratedForm_step GeneratedForm_mount evs"

text \<open>Reading a list of mounted elements.\<close>

fun alerts :: "'n element list \<Rightarrow> Button option list" where
  "alerts [] = []"
| "alerts (Alert b # es) = b # alerts es"
| "alerts (e # es) = alerts es"

fun transactionForms :: "'n element list \<Rightarrow> RenderFormSchema list" where
  "transactionForms [] = []"
| "transactionForms (TransactionForm sch cs a w # es) = sch # transactionForms es"
| "transactionForms (e # es) = transactionForms es"

fun widgetErrors :: "'n element list \<Rightarrow> Error option list" where
  "widgetErrors [] = []"
| "widgetErrors (ContractStateWidget cs addr a v t err # es) = err # widgetErrors es"
| "widgetErrors (e # es) = widgetErrors es"

fun contractSchemas :: "'n element list \<Rightarrow> ContractSchema list" where
  "contractSchemas [] = []"
| "contractSchemas (ContractStateWidget cs addr a v t err # es) = cs # contractSchemas es"
| "contractSchemas (TransactionForm sch cs a w # es) = cs # contractSchemas es"
| "contractSchemas (e # es) = contractSchemas es"

fun adapters :: "'n element list \<Rightarrow> 'n ContractAdapter list" where
  "adapters [] = []"
| "adapters (ContractStateWidget cs addr a v t err # es) = a # adapters es"
| "adapters (TransactionForm sch cs a w # es) = a # adapters es"
| "adapters (e # es) = adapters es"


section \<open>\<open>App\<close>\<close>

definition BASE_SEPOLIA_CHAIN_ID :: int where
  "BASE_SEPOLIA_CHAIN_ID = 84532"

text \<open>
  What the three wallet hooks return at one render: \<open>useWalletState\<close> (\<open>activeAdapter\<close>),
  \<open>useDerivedAccountStatus\<close> (\<open>isConnected\<close>, \<open>chainId\<close>) and \<open>useDerivedSwitchChainStatus\<close>
  (\<open>switchChain\<close>, \<open>isSwitching\<close>). A chain id is an integer. \<open>switchChain\<close>, when the wallet
  offers it, acts on the wallet (of type \<open>'w\<close>) given the requested chain id.
\<close>

record ('n, 'w) AppHooks =
  activeAdapter :: "'n ContractAdapter option"
  isConnected :: "bool option"
  chainId :: "int option"
  switchChain :: "(int \<Rightarrow> 'w \<Rightarrow> 'w) option"
  isSwitching :: "bool option"

text \<open>\<open>chainId === undefined || chainId === BASE_SEPOLIA_CHAIN_ID\<close>\<close>

definition App_isCorrectChain :: "int option \<Rightarrow> bool" where
  "App_isCorrectChain cid = (cid = None \<or> cid = Some BASE_SEPOLIA_CHAIN_ID)"

text \<open>\<open>switchChain?.({ chainId: BASE_SEPOLIA_CHAIN_ID })\<close>\<close>

definition requestSwitchToBaseSepolia :: "('n, 'w) AppHooks \<Rightarrow> 'w \<Rightarrow> 'w" where
  "requestSwitchToBaseSepolia hooks wallet =
    (case switchChain hooks of
       None \<Rightarrow> wallet
     | Some f \<Rightarrow> f BASE_SEPOLIA_CHAIN_ID wallet)"

text \<open>
  The state of \<open>App\<close>: the \<open>useState\<close> cell \<open>adapterForForm\<close>, and the dependency list
  \<open>[activeAdapter]\<close> that \<open>useEffect\<close> remembers from the last commit (\<open>None\<close> before the first).
\<close>

record 'n AppState =
  adapterForForm :: "'n ContractAdapter option"
  effectDeps :: "'n ContractAdapter option option"

definition App_mount :: "'n AppState" where
  "App_mount = \<lparr> adapterForForm = None, effectDeps = None \<rparr>"

text \<open>The body of the effect: \<open>if (activeAdapter) setAdapterForForm((prev) => prev ?? activeAdapter)\<close>.\<close>

definition App_effect :: "('n, 'w) AppHooks \<Rightarrow> 'n AppState \<Rightarrow> 'n AppState" where
  "App_effect hooks s =
    (case activeAdapter hooks of
       None \<Rightarrow> s
     | Some a \<Rightarrow> s\<lparr> adapterForForm := Some (nullish (adapterForForm s) a) \<rparr>)"

text \<open>
  After a render is committed, the effect runs if it has not run yet or if \<open>activeAdapter\<close>
  is not the one of the last commit.
\<close>

definition App_commit :: "'n AppState \<Rightarrow> ('n, 'w) AppHooks \<Rightarrow> 'n AppState" where
  "App_commit s hooks =
    (if effectDeps s = Some (activeAdapter hooks) then s
     else (App_effect hooks s)\<lparr> effectDeps := Some (activeAdapter hooks) \<rparr>)"

definition App_run :: "'n AppState \<Rightarrow> ('n, 'w) AppHooks list \<Rightarrow> 'n AppState" where
  "App_run s hs = foldl App_commit s hs"

text \<open>
  The content of \<open><main>\<close>: the form with the cached adapter, or the loading placeholder.
  The header and the footer are static. The second component of the result is the hook state
  of the mounted \<open>GeneratedForm\<close>.
\<close>

datatype 'n page = Form "'n element list" | AppLoading

definition App ::
  "('n, 'w) AppHooks \<Rightarrow> 'n AppState \<Rightarrow> GeneratedFormState \<Rightarrow> 'n page \<times> GeneratedFormState" where
  "App hooks s fs =
    (case adapterForForm s of
       Some a \<Rightarrow>
         (let (els, fs') =
                GeneratedForm
                  \<lparr> adapter = a,
                    isWalletConnected = isConnected hooks,
                    isCorrectChain = Some (App_isCorrectChain (chainId hooks)),
                    onSwitchToBaseSepolia = Some RequestSwitchToBaseSepolia,
                    isSwitchingChain = isSwitching hooks \<rparr>
                  fs
          in (Form els, fs'))
     | None \<Rightarrow> (AppLoading, fs))"

fun elements :: "'n page \<Rightarrow> 'n element list" where
  "elements (Form els) = els"
| "elements AppLoading = []"


section \<open>What a page shows\<close>

text \<open>The banner is rendered when the page has an \<open>Alert\<close>; the forms rendered, by title.\<close>

definition wrongNetworkBannerRendered :: "'n page \<Rightarrow> bool" where
  "wrongNetworkBannerRendered p = (alerts (elements p) \<noteq> [])"

definition transactionFormsRendered :: "'n page \<Rightarrow> string list" where
  "transactionFormsRendered p = map title (transactionForms (elements p))"

text \<open>The five memo cells of a \<open>GeneratedForm\<close>, as one value.\<close>

definition memoisedSchemas ::
  "GeneratedFormState \<Rightarrow> RenderFormSchema option list \<times> ContractSchema option" where
  "memoisedSchemas st =
     ([approveFormSchema_memo st, mintFormSchema_memo st, mintAndSendFormSchema_memo st,
       sendFormSchema_memo st],
      contractSchema_memo st)"

text \<open>
  The first adapter a sequence of hook results offers: the first \<open>activeAdapter\<close> that is
  not \<open>null\<close>.
\<close>

definition firstActiveAdapter :: "('n, 'w) AppHooks list \<Rightarrow> 'n ContractAdapter option" where
  "firstActiveAdapter hs =
     (case List.map_filter activeAdapter hs of [] \<Rightarrow> None | a # _ \<Rightarrow> Some a)"

text \<open>
  Invariants of the hook state. A memo cell is sound when it is empty or holds what its
  factory builds; the effect's remembered dependency is sound when an adapter seen by the
  effect has left \<open>adapterForForm\<close> filled.
\<close>

definition memo_sound :: "(unit \<Rightarrow> 'a) \<Rightarrow> 'a option \<Rightarrow> bool" where
  "memo_sound factory cell = (cell = None \<or> cell = Some (factory ()))"

definition memos_sound :: "GeneratedFormState \<Rightarrow> bool" where
  "memos_sound st =
     (memo_sound approveFormSchema_factory (approveFormSchema_memo st) \<and>
      memo_sound mintFormSchema_factory (mintFormSchema_memo st) \<and>
      memo_sound mintAndSendFormSchema_factory (mintAndSendFormSchema_memo st) \<and>
      memo_sound sendFormSchema_factory (sendFormSchema_memo st) \<and>
      memo_sound contractSchema_factory (contractSchema_memo st))"

definition deps_sound :: "'n AppState \<Rightarrow> bool" where
  "deps_sound s =
     (case effectDeps s of
        Some (Some a) \<Rightarrow> adapterForForm s \<noteq> None
      | _ \<Rightarrow> True)"


section \<open>Properties\<close>

subsection \<open>Reading what a render mounts\<close>

lemma alerts_append: "alerts (xs @ ys) = alerts xs @ alerts ys"
  by (induction xs rule: alerts.induct) simp_all

lemma transactionForms_append:
  "transactionForms (xs @ ys) = transactionForms xs @ transactionForms ys"
  by (induction xs rule: transactionForms.induct) simp_all

lemma widgetErrors_append: "widgetErrors (xs @ ys) = widgetErrors xs @ widgetErrors ys"
  by (induction xs rule: widgetErrors.induct) simp_all

lemma contractSchemas_append:
  "contractSchemas (xs @ ys) = contractSchemas xs @ contractSchemas ys"
  by (induction xs rule: contractSchemas.induct) simp_all

lemma adapters_append: "adapters (xs @ ys) = adapters xs @ adapters ys"
  by (induction xs rule: adapters.induct) simp_all

lemma CONTRACT_ADDRESS_nonempty: "CONTRACT_ADDRESS \<noteq> ''''"
  by (simp add: CONTRACT_ADDRESS_def)

lemma alerts_GeneratedForm:
  "alerts (fst (GeneratedForm props st)) =
     (if truthy (showWrongNetwork props)
      then [case onSwitchToBaseSepolia props of
              None \<Rightarrow> None
            | Some cb \<Rightarrow>
                Some (Button cb (prop_default (isSwitchingChain props) False)
                        (if prop_default (isSwitchingChain props) False
                         then ''Switching'' @ [CHR 0xE2, CHR 0x80, CHR 0xA6]
                         else ''Switch to Base Sepolia''))]
      else [])"
  by (simp add: GeneratedForm_def Let_def split_def alerts_append CONTRACT_ADDRESS_nonempty
           split: option.split)

lemma transactionForms_GeneratedForm:
  "transactionForms (fst (GeneratedForm props st)) =
     (if truthy (showWrongNetwork props) then []
      else [fst (useMemo approveFormSchema_factory (approveFormSchema_memo st)),
            fst (useMemo mintFormSchema_factory (mintFormSchema_memo st)),
            fst (useMemo mintAndSendFormSchema_factory (mintAndSendFormSchema_memo st)),
            fst (useMemo sendFormSchema_factory (sendFormSchema_memo st))])"
  by (simp add: GeneratedForm_def Let_def split_def transactionForms_append
           CONTRACT_ADDRESS_nonempty split: option.split)

lemma widgetErrors_GeneratedForm:
  "widgetErrors (fst (GeneratedForm props st)) = [loadError st]"
  by (simp add: GeneratedForm_def Let_def split_def widgetErrors_append
           CONTRACT_ADDRESS_nonempty split: option.split)

lemma snd_GeneratedForm:
  "snd (GeneratedForm props st) =
     st\<lparr> approveFormSchema_memo :=
           snd (useMemo approveFormSchema_factory (approveFormSchema_memo st)),
         mintFormSchema_memo := snd (useMemo mintFormSchema_factory (mintFormSchema_memo st)),
         mintAndSendFormSchema_memo :=
           snd (useMemo mintAndSendFormSchema_factory (mintAndSendFormSchema_memo st)),
         sendFormSchema_memo := snd (useMemo sendFormSchema_factory (sendFormSchema_memo st)),
         contractSchema_memo := snd (useMemo contractSchema_factory (contractSchema_memo st)) \<rparr>"
  by (simp add: GeneratedForm_def Let_def split_def)

lemma truthy_showWrongNetwork:
  "truthy (showWrongNetwork props) \<longleftrightarrow>
     isWalletConnected props = Some True \<and> isCorrectChain props = Some False"
  by (auto simp: truthy_def showWrongNetwork_def js_and_def prop_default_def
           split: option.splits bool.splits)


lemma contractSchemas_GeneratedForm:
  "set (contractSchemas (fst (GeneratedForm props st))) =
     {fst (useMemo contractSchema_factory (contractSchema_memo st))}"
  by (simp add: GeneratedForm_def Let_def split_def contractSchemas_append
           CONTRACT_ADDRESS_nonempty split: option.split)

lemma adapters_GeneratedForm:
  "set (adapters (fst (GeneratedForm props st))) = {adapter props}"
  by (simp add: GeneratedForm_def Let_def split_def adapters_append
           CONTRACT_ADDRESS_nonempty split: option.split)


lemma useMemo_sound:
  "memo_sound factory cell \<Longrightarrow> useMemo factory cell = (factory (), Some (factory ()))"
  by (auto simp: memo_sound_def useMemo_def Let_def)

lemma memo_sound_Some: "memo_sound factory (Some (factory ()))"
  by (simp add: memo_sound_def)

lemma memos_sound_mount: "memos_sound GeneratedForm_mount"
  by (simp add: memos_sound_def memo_sound_def GeneratedForm_mount_def)

lemma memos_sound_step: "memos_sound st \<Longrightarrow> memos_sound (GeneratedForm_step st ev)"
proof (cases ev)
  case (Render props)
  assume "memos_sound st"
  then show ?thesis
    by (simp add: Render snd_GeneratedForm memos_sound_def useMemo_sound memo_sound_Some)
next
  case (Invoke cb)
  assume "memos_sound st"
  then show ?thesis
    by (cases cb) (simp_all add: Invoke toggleWidget_def memos_sound_def)
qed

lemma memos_sound_foldl:
  "memos_sound st \<Longrightarrow> memos_sound (foldl GeneratedForm_step st evs)"
  by (induction evs arbitrary: st) (simp_all add: memos_sound_step)

lemma memos_sound_run: "memos_sound (GeneratedForm_run evs)"
  by (simp add: GeneratedForm_run_def memos_sound_foldl memos_sound_mount)

lemma loadError_step: "loadError (GeneratedForm_step st ev) = loadError st"
proof (cases ev)
  case (Render props)
  then show ?thesis by (simp add: snd_GeneratedForm)
next
  case (Invoke cb)
  then show ?thesis by (cases cb) (simp_all add: toggleWidget_def)
qed

lemma loadError_foldl: "loadError (foldl GeneratedForm_step st evs) = loadError st"
  by (induction evs arbitrary: st) (simp_all add: loadError_step)

lemma elements_App:
  "elements (fst (App hooks s fs)) =
     (case adapterForForm s of
        None \<Rightarrow> []
      | Some a \<Rightarrow>
          fst (GeneratedForm
                 \<lparr> adapter = a,
                   isWalletConnected = isConnected hooks,
                   isCorrectChain = Some (App_isCorrectChain (chainId hooks)),
                   onSwitchToBaseSepolia = Some RequestSwitchToBaseSepolia,
                   isSwitchingChain = isSwitching hooks \<rparr>
                 fs))"
  by (simp add: App_def split_def Let_def split: option.split)

subsection \<open>The network gate\<close>

lemma transactionForms_run:
  "transactionForms (fst (GeneratedForm props (GeneratedForm_run evs))) =
     (if truthy (showWrongNetwork props) then []
      else [approveFormSchema_factory (), mintFormSchema_factory (),
            mintAndSendFormSchema_factory (), sendFormSchema_factory ()])"
  using memos_sound_run [of evs]
  by (simp add: transactionForms_GeneratedForm memos_sound_def useMemo_sound)

lemma form_titles:
  "map title [approveFormSchema_factory (), mintFormSchema_factory (),
              mintAndSendFormSchema_factory (), sendFormSchema_factory ()] =
     [''Approve Form'', ''Mint'', ''Mint And Send'', ''Send'']"
  by (simp add: approveFormSchema_factory_def mintFormSchema_factory_def
        mintAndSendFormSchema_factory_def sendFormSchema_factory_def)

lemma banner_App:
  "wrongNetworkBannerRendered (fst (App hooks s fs)) \<longleftrightarrow>
     adapterForForm s \<noteq> None \<and> isConnected hooks = Some True
       \<and> \<not> App_isCorrectChain (chainId hooks)"
  by (cases "adapterForForm s")
     (simp_all add: wrongNetworkBannerRendered_def elements_App alerts_GeneratedForm
        truthy_showWrongNetwork)

lemma forms_App_run:
  "transactionFormsRendered (fst (App hooks s (GeneratedForm_run evs))) =
     (if adapterForForm s = None
         \<or> (isConnected hooks = Some True \<and> App_isCorrectChain (chainId hooks) = False)
      then [] else [''Approve Form'', ''Mint'', ''Mint And Send'', ''Send''])"
  unfolding transactionFormsRendered_def elements_App
  by (cases "adapterForForm s")
     (simp_all add: transactionForms_run truthy_showWrongNetwork form_titles del: list.map)

lemma forms_App_length:
  "length (transactionFormsRendered (fst (App hooks s fs))) =
     (if adapterForForm s = None
         \<or> (isConnected hooks = Some True \<and> App_isCorrectChain (chainId hooks) = False)
      then 0 else 4)"
  unfolding transactionFormsRendered_def elements_App
  by (cases "adapterForForm s")
     (simp_all add: transactionForms_GeneratedForm truthy_showWrongNetwork)

lemma forms_App_empty:
  "transactionFormsRendered (fst (App hooks s fs)) = [] \<longleftrightarrow>
     adapterForForm s = None
       \<or> (isConnected hooks = Some True \<and> App_isCorrectChain (chainId hooks) = False)"
  unfolding length_0_conv [symmetric] forms_App_length by simp

text \<open>
  The first render of \<open>App\<close>: \<open>adapterForForm\<close> is still \<open>null\<close> (the effect that caches the
  adapter runs after the render), so the page is the loading placeholder. With a wallet
  connected on chain 1 the mismatch condition of C1 holds and yet no banner is rendered.
\<close>

theorem wrong_network_banner_loading_counterexample:
  "fst (App \<lparr> activeAdapter = Some \<lparr> networkConfig = Some ''base-sepolia'' \<rparr>,
              isConnected = Some True, chainId = Some 1,
              switchChain = (None :: (int \<Rightarrow> unit \<Rightarrow> unit) option),
              isSwitching = Some False \<rparr>
            App_mount GeneratedForm_mount) = AppLoading
   \<and> \<not> wrongNetworkBannerRendered
     (fst (App \<lparr> activeAdapter = Some \<lparr> networkConfig = Some ''base-sepolia'' \<rparr>,
                 isConnected = Some True, chainId = Some 1,
                 switchChain = (None :: (int \<Rightarrow> unit \<Rightarrow> unit) option),
                 isSwitching = Some False \<rparr>
               App_mount GeneratedForm_mount))
   \<and> (1 :: int) \<noteq> BASE_SEPOLIA_CHAIN_ID"
  by (simp add: App_def App_mount_def wrongNetworkBannerRendered_def
        BASE_SEPOLIA_CHAIN_ID_def)

text \<open>
  C1, as the code has it. In every state of \<open>App\<close>, whatever the connection status and
  whatever chain id the wallet reports, the wrong-network banner is rendered if and only if
  the adapter has been cached (so that the form is mounted), the wallet is connected and the
  reported chain id is not \<open>BASE_SEPOLIA_CHAIN_ID\<close>, which is 84532.
\<close>

theorem wrong_network_banner_iff_mounted_mismatch:
  "(wrongNetworkBannerRendered
      (fst (App \<lparr> activeAdapter = act, isConnected = conn, chainId = Some cid,
                  switchChain = sw, isSwitching = isw \<rparr> s fs))
    \<longleftrightarrow> adapterForForm s \<noteq> None \<and> conn = Some True \<and> cid \<noteq> BASE_SEPOLIA_CHAIN_ID)
   \<and> BASE_SEPOLIA_CHAIN_ID = 84532"
  by (simp add: banner_App App_isCorrectChain_def) (simp add: BASE_SEPOLIA_CHAIN_ID_def)

text \<open>
  With the adapter cached: connected on chain 1, connected on Base Sepolia, not connected on
  chain 1. Before it is cached: connected on chain 1.
\<close>

theorem wrong_network_banner_iff_mounted_mismatch_witness:
  "wrongNetworkBannerRendered
     (fst (App \<lparr> activeAdapter = None, isConnected = Some True, chainId = Some 1,
                 switchChain = (None :: (int \<Rightarrow> unit \<Rightarrow> unit) option),
                 isSwitching = Some False \<rparr>
               \<lparr> adapterForForm = Some \<lparr> networkConfig = Some ''base-sepolia'' \<rparr>,
                 effectDeps = None \<rparr>
               GeneratedForm_mount))
   \<and> \<not> wrongNetworkBannerRendered
     (fst (App \<lparr> activeAdapter = None, isConnected = Some True, chainId = Some 84532,
                 switchChain = (None :: (int \<Rightarrow> unit \<Rightarrow> unit) option),
                 isSwitching = Some False \<rparr>
               \<lparr> adapterForForm = Some \<lparr> networkConfig = Some ''base-sepolia'' \<rparr>,
                 effectDeps = None \<rparr>
               GeneratedForm_mount))
   \<and> \<not> wrongNetworkBannerRendered
     (fst (App \<lparr> activeAdapter = None, isConnected = Some False, chainId = Some 1,
                 switchChain = (None :: (int \<Rightarrow> unit \<Rightarrow> unit) option),
                 isSwitching = Some False \<rparr>
               \<lparr> adapterForForm = Some \<lparr> networkConfig = Some ''base-sepolia'' \<rparr>,
                 effectDeps = None \<rparr>
               GeneratedForm_mount))
   \<and> \<not> wrongNetworkBannerRendered
     (fst (App \<lparr> activeAdapter = None, isConnected = Some True, chainId = Some 1,
                 switchChain = (None :: (int \<Rightarrow> unit \<Rightarrow> unit) option),
                 isSwitching = Some False \<rparr>
               \<lparr> adapterForForm = (None :: string ContractAdapter option), effectDeps = None \<rparr>
               GeneratedForm_mount))"
  by (simp add: wrong_network_banner_iff_mounted_mismatch)

text \<open>
  The first render of \<open>App\<close> again, now with the wallet connected on Base Sepolia itself:
  there is no mismatch, and yet the four forms are hidden; neither the banner nor the forms
  are rendered.
\<close>

theorem forms_hidden_loading_counterexample:
  "transactionFormsRendered
     (fst (App \<lparr> activeAdapter = Some \<lparr> networkConfig = Some ''base-sepolia'' \<rparr>,
                 isConnected = Some True, chainId = Some 84532,
                 switchChain = (None :: (int \<Rightarrow> unit \<Rightarrow> unit) option),
                 isSwitching = Some False \<rparr>
               App_mount GeneratedForm_mount)) = []
   \<and> \<not> wrongNetworkBannerRendered
     (fst (App \<lparr> activeAdapter = Some \<lparr> networkConfig = Some ''base-sepolia'' \<rparr>,
                 isConnected = Some True, chainId = Some 84532,
                 switchChain = (None :: (int \<Rightarrow> unit \<Rightarrow> unit) option),
                 isSwitching = Some False \<rparr>
               App_mount GeneratedForm_mount))
   \<and> (84532 :: int) = BASE_SEPOLIA_CHAIN_ID"
  by (simp add: App_def App_mount_def transactionFormsRendered_def
        wrongNetworkBannerRendered_def BASE_SEPOLIA_CHAIN_ID_def)

text \<open>
  C2, as the code has it. In every state of \<open>App\<close> and with any reported chain id, the four
  form cards (Approve, Mint, Mint And Send, Send, in this order) are hidden exactly when the
  adapter has not been cached yet or the mismatch condition holds (wallet connected and chain
  id not \<open>BASE_SEPOLIA_CHAIN_ID\<close>); otherwise all four are rendered. This holds of the number
  of cards in every hook state of the form, and of their titles after any history of the form
  since its mount. Whatever the wallet reports (a chain id or none), the banner is rendered
  exactly when the adapter is cached and no form is rendered: the banner and the forms are
  never rendered together, exactly one of them is rendered once the adapter is cached, and
  neither is before.
\<close>

theorem forms_hidden_iff_loading_or_mismatch:
  "(transactionFormsRendered
      (fst (App \<lparr> activeAdapter = act, isConnected = conn, chainId = Some cid,
                  switchChain = sw, isSwitching = isw \<rparr> s fs)) = []
    \<longleftrightarrow> adapterForForm s = None \<or> (conn = Some True \<and> cid \<noteq> BASE_SEPOLIA_CHAIN_ID))
   \<and> length (transactionFormsRendered
        (fst (App \<lparr> activeAdapter = act, isConnected = conn, chainId = Some cid,
                    switchChain = sw, isSwitching = isw \<rparr> s fs))) =
       (if adapterForForm s = None \<or> (conn = Some True \<and> cid \<noteq> BASE_SEPOLIA_CHAIN_ID)
        then 0 else 4)
   \<and> transactionFormsRendered
       (fst (App \<lparr> activeAdapter = act, isConnected = conn, chainId = Some cid,
                   switchChain = sw, isSwitching = isw \<rparr> s (GeneratedForm_run evs))) =
       (if adapterForForm s = None \<or> (conn = Some True \<and> cid \<noteq> BASE_SEPOLIA_CHAIN_ID)
        then [] else [''Approve Form'', ''Mint'', ''Mint And Send'', ''Send''])
   \<and> (wrongNetworkBannerRendered
        (fst (App \<lparr> activeAdapter = act, isConnected = conn, chainId = reported,
                    switchChain = sw, isSwitching = isw \<rparr> s fs))
      \<longleftrightarrow>
      adapterForForm s \<noteq> None \<and>
      transactionFormsRendered
        (fst (App \<lparr> activeAdapter = act, isConnected = conn, chainId = reported,
                    switchChain = sw, isSwitching = isw \<rparr> s fs)) = [])"
proof (intro conjI)
  show "transactionFormsRendered
      (fst (App \<lparr> activeAdapter = act, isConnected = conn, chainId = Some cid,
                  switchChain = sw, isSwitching = isw \<rparr> s fs)) = []
    \<longleftrightarrow> adapterForForm s = None \<or> (conn = Some True \<and> cid \<noteq> BASE_SEPOLIA_CHAIN_ID)"
    by (simp add: forms_App_empty App_isCorrectChain_def)
next
  show "length (transactionFormsRendered
        (fst (App \<lparr> activeAdapter = act, isConnected = conn, chainId = Some cid,
                    switchChain = sw, isSwitching = isw \<rparr> s fs))) =
       (if adapterForForm s = None \<or> (conn = Some True \<and> cid \<noteq> BASE_SEPOLIA_CHAIN_ID)
        then 0 else 4)"
    by (simp add: forms_App_length App_isCorrectChain_def)
next
  show "transactionFormsRendered
       (fst (App \<lparr> activeAdapter = act, isConnected = conn, chainId = Some cid,
                   switchChain = sw, isSwitching = isw \<rparr> s (GeneratedForm_run evs))) =
       (if adapterForForm s = None \<or> (conn = Some True \<and> cid \<noteq> BASE_SEPOLIA_CHAIN_ID)
        then [] else [''Approve Form'', ''Mint'', ''Mint And Send'', ''Send''])"
    by (simp add: forms_App_run App_isCorrectChain_def)
next
  show "wrongNetworkBannerRendered
        (fst (App \<lparr> activeAdapter = act, isConnected = conn, chainId = reported,
                    switchChain = sw, isSwitching = isw \<rparr> s fs))
      \<longleftrightarrow>
      adapterForForm s \<noteq> None \<and>
      transactionFormsRendered
        (fst (App \<lparr> activeAdapter = act, isConnected = conn, chainId = reported,
                    switchChain = sw, isSwitching = isw \<rparr> s fs)) = []"
    by (auto simp: banner_App forms_App_empty)
qed

text \<open>
  With the adapter cached: connected on chain 8453 (Base mainnet), no form; connected on
  Base Sepolia, the four forms. Before it is cached: connected on Base Sepolia, no form.
\<close>

theorem forms_hidden_iff_loading_or_mismatch_witness:
  "transactionFormsRendered
     (fst (App \<lparr> activeAdapter = None, isConnected = Some True, chainId = Some 8453,
                 switchChain = (None :: (int \<Rightarrow> unit \<Rightarrow> unit) option),
                 isSwitching = None \<rparr>
               \<lparr> adapterForForm = Some \<lparr> networkConfig = Some ''base-sepolia'' \<rparr>,
                 effectDeps = None \<rparr>
               (GeneratedForm_run ([] :: string GeneratedForm_event list)))) = []
   \<and> transactionFormsRendered
     (fst (App \<lparr> activeAdapter = None, isConnected = Some True, chainId = Some 84532,
                 switchChain = (None :: (int \<Rightarrow> unit \<Rightarrow> unit) option),
                 isSwitching = None \<rparr>
               \<lparr> adapterForForm = Some \<lparr> networkConfig = Some ''base-sepolia'' \<rparr>,
                 effectDeps = None \<rparr>
               (GeneratedForm_run ([] :: string GeneratedForm_event list)))) =
       [''Approve Form'', ''Mint'', ''Mint And Send'', ''Send'']
   \<and> transactionFormsRendered
     (fst (App \<lparr> activeAdapter = None, isConnected = Some True, chainId = Some 84532,
                 switchChain = (None :: (int \<Rightarrow> unit \<Rightarrow> unit) option),
                 isSwitching = None \<rparr>
               \<lparr> adapterForForm = (None :: string ContractAdapter option), effectDeps = None \<rparr>
               (GeneratedForm_run ([] :: string GeneratedForm_event list)))) = []"
  using forms_hidden_iff_loading_or_mismatch
          [where conn = "Some True" and cid = 8453 and evs = "[] :: string GeneratedForm_event list"
             and act = None and sw = "None :: (int \<Rightarrow> unit \<Rightarrow> unit) option" and isw = None
             and s = "\<lparr> adapterForForm = Some \<lparr> networkConfig = Some ''base-sepolia'' \<rparr>,
                        effectDeps = None \<rparr>"]
        forms_hidden_iff_loading_or_mismatch
          [where conn = "Some True" and cid = 84532 and evs = "[] :: string GeneratedForm_event list"
             and act = None and sw = "None :: (int \<Rightarrow> unit \<Rightarrow> unit) option" and isw = None
             and s = "\<lparr> adapterForForm = Some \<lparr> networkConfig = Some ''base-sepolia'' \<rparr>,
                        effectDeps = None \<rparr>"]
        forms_hidden_iff_loading_or_mismatch
          [where conn = "Some True" and cid = 84532 and evs = "[] :: string GeneratedForm_event list"
             and act = None and sw = "None :: (int \<Rightarrow> unit \<Rightarrow> unit) option" and isw = None
             and s = "\<lparr> adapterForForm = (None :: string ContractAdapter option),
                        effectDeps = None \<rparr>"]
  by (simp add: BASE_SEPOLIA_CHAIN_ID_def)

text \<open>
  The first render of \<open>App\<close> with a connected wallet that reports no chain id: the chain
  counts as correct, and yet no transaction form is rendered.
\<close>

theorem undefined_chain_loading_counterexample:
  "App_isCorrectChain None
   \<and> transactionFormsRendered
     (fst (App \<lparr> activeAdapter = Some \<lparr> networkConfig = Some ''base-sepolia'' \<rparr>,
                 isConnected = Some True, chainId = None,
                 switchChain = (None :: (int \<Rightarrow> unit \<Rightarrow> unit) option),
                 isSwitching = Some False \<rparr>
               App_mount GeneratedForm_mount)) = []"
  by (simp add: App_def App_mount_def transactionFormsRendered_def App_isCorrectChain_def)

text \<open>
  C3, as the code has it. When the wallet reports no chain id the chain is treated as
  correct: in every state of \<open>App\<close> and whatever the connection status (connected too), the
  wrong-network banner is not rendered, and the four transaction forms are rendered exactly
  when the adapter has been cached; before that the page has neither.
\<close>

theorem undefined_chain_is_correct:
  "App_isCorrectChain None
   \<and> \<not> wrongNetworkBannerRendered
        (fst (App \<lparr> activeAdapter = act, isConnected = conn, chainId = None,
                    switchChain = sw, isSwitching = isw \<rparr> s fs))
   \<and> length (transactionFormsRendered
        (fst (App \<lparr> activeAdapter = act, isConnected = conn, chainId = None,
                    switchChain = sw, isSwitching = isw \<rparr> s fs))) =
       (if adapterForForm s = None then 0 else 4)
   \<and> transactionFormsRendered
        (fst (App \<lparr> activeAdapter = act, isConnected = conn, chainId = None,
                    switchChain = sw, isSwitching = isw \<rparr> s (GeneratedForm_run evs))) =
       (if adapterForForm s = None then []
        else [''Approve Form'', ''Mint'', ''Mint And Send'', ''Send''])"
  by (simp add: banner_App forms_App_length forms_App_run App_isCorrectChain_def)

text \<open>
  Connected, no chain id reported, adapter cached: no banner, and the four forms. The same
  before the adapter is cached: no form.
\<close>

theorem undefined_chain_is_correct_witness:
  "\<not> wrongNetworkBannerRendered
     (fst (App \<lparr> activeAdapter = None, isConnected = Some True, chainId = None,
                 switchChain = (None :: (int \<Rightarrow> unit \<Rightarrow> unit) option),
                 isSwitching = None \<rparr>
               \<lparr> adapterForForm = Some \<lparr> networkConfig = Some ''base-sepolia'' \<rparr>,
                 effectDeps = None \<rparr>
               GeneratedForm_mount))
   \<and> transactionFormsRendered
     (fst (App \<lparr> activeAdapter = None, isConnected = Some True, chainId = None,
                 switchChain = (None :: (int \<Rightarrow> unit \<Rightarrow> unit) option),
                 isSwitching = None \<rparr>
               \<lparr> adapterForForm = Some \<lparr> networkConfig = Some ''base-sepolia'' \<rparr>,
                 effectDeps = None \<rparr>
               (GeneratedForm_run ([] :: string GeneratedForm_event list)))) =
       [''Approve Form'', ''Mint'', ''Mint And Send'', ''Send'']
   \<and> transactionFormsRendered
     (fst (App \<lparr> activeAdapter = None, isConnected = Some True, chainId = None,
                 switchChain = (None :: (int \<Rightarrow> unit \<Rightarrow> unit) option),
                 isSwitching = None \<rparr>
               \<lparr> adapterForForm = (None :: string ContractAdapter option), effectDeps = None \<rparr>
               (GeneratedForm_run ([] :: string GeneratedForm_event list)))) = []"
  by (simp add: undefined_chain_is_correct)

subsection \<open>The schemas\<close>

lemma contract_function_ids:
  "map fnId (contractFunctions (contractSchema_factory ())) =
     [''DOMAIN_SEPARATOR_'', ''allowance_address_address'', ''approve_address_uint256'',
      ''balanceOf_address'', ''decimals_'', ''eip712Domain_'', ''mint_'',
      ''mintAndSend_address'', ''name_'', ''nonces_address'',
      ''permit_address_address_uint256_uint256_uint8_bytes32_bytes32'', ''symbol_'',
      ''totalSupply_'', ''transfer_address_uint256'', ''transferFrom_address_address_uint256'']"
  by (simp add: contractSchema_factory_def)

text \<open>
  C4. The function id of each of the four form schemas (Approve, Mint, MintAndSend, Send) is
  the id of a function descriptor in the function list of the contract schema.
\<close>

theorem form_function_ids_in_contract_schema:
  "set (map functionId
          [approveFormSchema_factory (), mintFormSchema_factory (),
           mintAndSendFormSchema_factory (), sendFormSchema_factory ()])
     \<subseteq> set (map fnId (contractFunctions (contractSchema_factory ())))"
  unfolding contract_function_ids
  by (simp add: approveFormSchema_factory_def mintFormSchema_factory_def
        mintAndSendFormSchema_factory_def sendFormSchema_factory_def)

text \<open>
  C5. The contract address of each of the four form schemas and the address of the contract
  schema are the one constant \<open>CONTRACT_ADDRESS\<close>, which is
  \<open>0xA18A39F7f5Fa1A6d4aD6B67f6d5578D4002E2f98\<close>.
\<close>

theorem schemas_bound_to_CONTRACT_ADDRESS:
  "contractAddress (approveFormSchema_factory ()) = CONTRACT_ADDRESS
   \<and> contractAddress (mintFormSchema_factory ()) = CONTRACT_ADDRESS
   \<and> contractAddress (mintAndSendFormSchema_factory ()) = CONTRACT_ADDRESS
   \<and> contractAddress (sendFormSchema_factory ()) = CONTRACT_ADDRESS
   \<and> address (contractSchema_factory ()) = CONTRACT_ADDRESS
   \<and> CONTRACT_ADDRESS = ''0xA18A39F7f5Fa1A6d4aD6B67f6d5578D4002E2f98''"
  by (simp add: approveFormSchema_factory_def mintFormSchema_factory_def
        mintAndSendFormSchema_factory_def sendFormSchema_factory_def
        contractSchema_factory_def CONTRACT_ADDRESS_def)


lemma memoisedSchemas_render:
  "memos_sound st \<Longrightarrow>
   memoisedSchemas (snd (GeneratedForm props st)) =
     ([Some (approveFormSchema_factory ()), Some (mintFormSchema_factory ()),
       Some (mintAndSendFormSchema_factory ()), Some (sendFormSchema_factory ())],
      Some (contractSchema_factory ()))"
  by (simp add: memoisedSchemas_def snd_GeneratedForm memos_sound_def useMemo_sound)

lemma contractSchemas_run:
  "set (contractSchemas (fst (GeneratedForm props (GeneratedForm_run evs)))) =
     {contractSchema_factory ()}"
  using memos_sound_run [of evs]
  by (simp add: contractSchemas_GeneratedForm memos_sound_def useMemo_sound)

text \<open>
  C6. After any history of renders and callback invocations since the mount, and for any
  props, a render leaves in the five memo cells the values their factories build: the same
  in any two renders, whatever their props and histories. The contract schema it hands to
  the widget and to the forms is that value, and the schemas of the forms it mounts are
  those values.
\<close>

theorem schemas_stable_across_renders:
  "memoisedSchemas (snd (GeneratedForm props (GeneratedForm_run evs))) =
     ([Some (approveFormSchema_factory ()), Some (mintFormSchema_factory ()),
       Some (mintAndSendFormSchema_factory ()), Some (sendFormSchema_factory ())],
      Some (contractSchema_factory ()))
   \<and> memoisedSchemas (snd (GeneratedForm props (GeneratedForm_run evs))) =
       memoisedSchemas (snd (GeneratedForm props' (GeneratedForm_run evs')))
   \<and> set (contractSchemas (fst (GeneratedForm props (GeneratedForm_run evs)))) =
       {contractSchema_factory ()}
   \<and> transactionForms (fst (GeneratedForm props (GeneratedForm_run evs))) =
       (if truthy (showWrongNetwork props) then []
        else [approveFormSchema_factory (), mintFormSchema_factory (),
              mintAndSendFormSchema_factory (), sendFormSchema_factory ()])"
  by (simp only: memoisedSchemas_render [OF memos_sound_run] contractSchemas_run
        transactionForms_run simp_thms)

subsection \<open>The state of \<open>GeneratedForm\<close>\<close>

text \<open>
  C7. The state of \<open>GeneratedForm\<close> has one error cell, \<open>loadError\<close>, an \<open>Error\<close> or
  \<open>null\<close>; every render mounts exactly one contract-state widget, and the error it is given
  is the content of that cell.
\<close>

theorem widget_error_is_loadError:
  "widgetErrors (fst (GeneratedForm props st)) = [loadError st]"
  by (rule widgetErrors_GeneratedForm)


lemma loadError_run: "loadError (GeneratedForm_run evs) = None"
  by (simp add: GeneratedForm_run_def loadError_foldl GeneratedForm_mount_def)

text \<open>
  C9. Nothing that happens to a mounted \<open>GeneratedForm\<close> changes \<open>loadError\<close>: after any
  history since the mount it is \<open>null\<close>, and \<open>null\<close> is the error every render gives the
  contract-state widget.
\<close>

theorem loadError_always_null:
  "loadError (GeneratedForm_step st ev) = loadError st
   \<and> loadError (GeneratedForm_run evs) = None
   \<and> widgetErrors (fst (GeneratedForm props (GeneratedForm_run evs))) = [None]"
  by (simp add: loadError_step loadError_run widgetErrors_GeneratedForm)

text \<open>A render on the wrong network, then both callbacks.\<close>

theorem loadError_always_null_witness:
  "loadError
     (GeneratedForm_run
        [Render \<lparr> adapter = \<lparr> networkConfig = Some ''base-sepolia'' \<rparr>,
                  isWalletConnected = Some True, isCorrectChain = Some False,
                  onSwitchToBaseSepolia = Some RequestSwitchToBaseSepolia,
                  isSwitchingChain = Some False \<rparr>,
         Invoke ToggleWidget,
         Invoke RequestSwitchToBaseSepolia]) = None"
  by (simp add: loadError_always_null)

subsection \<open>The cached adapter\<close>

lemma App_effect_filled:
  "adapterForForm s = Some a \<Longrightarrow> adapterForForm (App_effect hooks s) = Some a"
  by (simp add: App_effect_def nullish_def split: option.split)

lemma App_commit_filled:
  "adapterForForm s = Some a \<Longrightarrow> adapterForForm (App_commit s hooks) = Some a"
  by (simp add: App_commit_def App_effect_filled)

lemma App_run_filled:
  "adapterForForm s = Some a \<Longrightarrow> adapterForForm (App_run s hs) = Some a"
  unfolding App_run_def
  by (induction hs arbitrary: s) (simp_all add: App_commit_filled)

lemma deps_sound_commit: "deps_sound s \<Longrightarrow> deps_sound (App_commit s hooks)"
  by (auto simp: deps_sound_def App_commit_def App_effect_def split: option.splits)

lemma App_commit_empty:
  "deps_sound s \<Longrightarrow> adapterForForm s = None \<Longrightarrow>
   adapterForForm (App_commit s hooks) = activeAdapter hooks"
  by (auto simp: deps_sound_def App_commit_def App_effect_def nullish_def
           split: option.splits)

lemma firstActiveAdapter_Cons:
  "firstActiveAdapter (h # hs) =
     (case activeAdapter h of None \<Rightarrow> firstActiveAdapter hs | Some a \<Rightarrow> Some a)"
  by (simp add: firstActiveAdapter_def split: option.split)

lemma App_run_first:
  "deps_sound s \<Longrightarrow> adapterForForm s = None \<Longrightarrow>
   adapterForForm (App_run s hs) = firstActiveAdapter hs"
proof (induction hs arbitrary: s)
  case Nil
  then show ?case by (simp add: App_run_def firstActiveAdapter_def)
next
  case (Cons h hs)
  have step: "App_run s (h # hs) = App_run (App_commit s h) hs"
    by (simp add: App_run_def)
  have sound: "deps_sound (App_commit s h)"
    using Cons.prems(1) by (rule deps_sound_commit)
  have now: "adapterForForm (App_commit s h) = activeAdapter h"
    using Cons.prems by (rule App_commit_empty)
  show ?case
  proof (cases "activeAdapter h")
    case None
    with now sound Cons.IH show ?thesis
      by (simp add: step firstActiveAdapter_Cons)
  next
    case (Some a)
    with now have "adapterForForm (App_run (App_commit s h) hs) = Some a"
      by (simp add: App_run_filled)
    with Some show ?thesis
      by (simp add: step firstActiveAdapter_Cons)
  qed
qed

lemma deps_sound_mount: "deps_sound App_mount"
  by (simp add: deps_sound_def App_mount_def)

lemma adapters_App:
  "set (adapters (elements (fst (App hooks s fs)))) = set_option (adapterForForm s)"
  by (simp add: elements_App adapters_GeneratedForm split: option.split)

lemma App_loading: "fst (App hooks s fs) = AppLoading \<longleftrightarrow> adapterForForm s = None"
  by (simp add: App_def split_def Let_def split: option.split)

text \<open>
  C10. \<open>adapterForForm\<close> starts \<open>null\<close>. Once it holds an adapter, a run of the effect
  and any sequence of commits leave that adapter in place, whatever \<open>activeAdapter\<close> they
  see. The page is the loading placeholder exactly when \<open>adapterForForm\<close> is \<open>null\<close>, the
  adapter given to the mounted elements is the cached one, and after any sequence of commits
  since the mount the cached adapter, hence the one the form is given, is the first
  \<open>activeAdapter\<close> of the sequence that was not \<open>null\<close>.
\<close>

theorem adapterForForm_write_once:
  "adapterForForm (App_mount :: 'n AppState) = None
   \<and> adapterForForm (App_effect hooks (s\<lparr> adapterForForm := Some a \<rparr>)) = Some a
   \<and> adapterForForm (App_run (s\<lparr> adapterForForm := Some a \<rparr>) hs) = Some a
   \<and> (fst (App hooks s fs) = AppLoading \<longleftrightarrow> adapterForForm s = None)
   \<and> set (adapters (elements (fst (App hooks s fs)))) = set_option (adapterForForm s)
   \<and> adapterForForm (App_run App_mount (hs :: ('n, 'w) AppHooks list)) = firstActiveAdapter hs
   \<and> set (adapters (elements (fst (App hooks (App_run App_mount hs) fs)))) =
       set_option (firstActiveAdapter hs)"
proof -
  have empty: "adapterForForm (App_mount :: 'n AppState) = None"
    by (simp add: App_mount_def)
  have filled: "adapterForForm (s\<lparr> adapterForForm := Some a \<rparr>) = Some a"
    by simp
  have first: "adapterForForm (App_run App_mount hs) = firstActiveAdapter hs"
    using deps_sound_mount empty by (rule App_run_first)
  show ?thesis
    using empty App_effect_filled [OF filled, of hooks] App_run_filled [OF filled, of hs]
      App_loading [of hooks s fs] adapters_App [of hooks s fs] first
      adapters_App [of hooks "App_run App_mount hs" fs]
    by simp
qed

text \<open>No adapter, then one adapter, then another: the first one stays.\<close>

theorem adapterForForm_write_once_witness:
  "adapterForForm
     (App_run App_mount
        [\<lparr> activeAdapter = None, isConnected = Some False, chainId = None,
           switchChain = (None :: (int \<Rightarrow> unit \<Rightarrow> unit) option), isSwitching = None \<rparr>,
         \<lparr> activeAdapter = Some \<lparr> networkConfig = Some ''base-sepolia'' \<rparr>,
           isConnected = Some False, chainId = None, switchChain = None, isSwitching = None \<rparr>,
         \<lparr> activeAdapter = Some \<lparr> networkConfig = Some ''ethereum-mainnet'' \<rparr>,
           isConnected = Some True, chainId = Some 1, switchChain = None, isSwitching = None \<rparr>])
     = Some \<lparr> networkConfig = Some ''base-sepolia'' \<rparr>"
  by (simp add: adapterForForm_write_once firstActiveAdapter_def)

end
